theory Spec2Isabelle
  imports Complex_Main "HOL-Library.Word"
begin

section \<open>Strings, error kinds and numbers\<close>

text \<open>
  A JavaScript string is a sequence of 16-bit code units. String literals of the source
  are written through \<open>js\<close>, which maps every character of an Isabelle string to its
  code unit.
\<close>

type_synonym code_unit = "16 word"
type_synonym jsstring = "code_unit list"

definition js :: "string \<Rightarrow> jsstring" where
  "js s = map of_char s"

text \<open>The enum \<open>CalculationError\<close> of \<open>types/calculator.ts\<close> and the string each member stands for.\<close>

datatype CalculationError = DOMAIN | UNDEFINED | SYNTAX | OVERFLOW | INVALID | UNKNOWN

fun message :: "CalculationError \<Rightarrow> jsstring" where
  "message DOMAIN = js ''Domain error''"
| "message UNDEFINED = js ''Undefined''"
| "message SYNTAX = js ''Syntax error''"
| "message OVERFLOW = js ''Overflow''"
| "message INVALID = js ''Invalid expression''"
| "message UNKNOWN = js ''Unknown error''"

text \<open>
  A JavaScript number is an IEEE double: a finite value, one of the two infinities, or NaN.
  A finite double is represented by the real number it denotes, so comparisons are exact;
  the two zeros are not told apart. Arithmetic that rounds is not defined here: it is taken
  from the host (record \<open>host\<close> below).
\<close>

datatype number = Num real | PosInfinity | NegInfinity | NaN

fun isFinite :: "number \<Rightarrow> bool" where
  "isFinite (Num r) = True"
| "isFinite PosInfinity = False"
| "isFinite NegInfinity = False"
| "isFinite NaN = False"

section \<open>The result cache\<close>

text \<open>
  \<open>resultCache\<close> is a \<open>Map<string, number>\<close>. A JavaScript \<open>Map\<close> iterates in insertion
  order, and eviction depends on that order, so the cache is the list of its entries,
  oldest first. \<open>mapSet\<close> overwrites the value of a key already present where it stands and
  appends a new key at the end, as \<open>Map.prototype.set\<close> does.
\<close>

type_synonym cache = "(jsstring \<times> number) list"

definition mapSize :: "cache \<Rightarrow> nat" where
  "mapSize m = length m"

definition mapHas :: "cache \<Rightarrow> jsstring \<Rightarrow> bool" where
  "mapHas m k = (map_of m k \<noteq> None)"

definition mapGet :: "cache \<Rightarrow> jsstring \<Rightarrow> number option" where
  "mapGet m k = map_of m k"

fun mapSet :: "cache \<Rightarrow> jsstring \<Rightarrow> number \<Rightarrow> cache" where
  "mapSet [] k v = [(k, v)]"
| "mapSet ((k', v') # m) k v = (if k' = k then (k, v) # m else (k', v') # mapSet m k v)"

definition mapDelete :: "cache \<Rightarrow> jsstring \<Rightarrow> cache" where
  "mapDelete m k = filter (\<lambda>p. fst p \<noteq> k) m"

text \<open>
  \<open>resultCache.keys().next().value\<close> followed by \<open>resultCache.delete(firstKey)\<close>. On an empty
  map the first key is \<open>undefined\<close> and nothing is deleted.
\<close>

fun deleteFirstKey :: "cache \<Rightarrow> cache" where
  "deleteFirstKey [] = []"
| "deleteFirstKey ((k, v) # m) = mapDelete ((k, v) # m) k"

text \<open>The eviction at the head of \<open>safeEvaluate\<close>: \<open>if (resultCache.size > 100) { ... }\<close>.\<close>

definition evictOldest :: "cache \<Rightarrow> cache" where
  "evictOldest resultCache =
     (if mapSize resultCache > 100 then deleteFirstKey resultCache else resultCache)"

section \<open>Validation of the expression text\<close>

text \<open>The class \<open>\s\<close> of a regular expression without the \<open>u\<close> flag.\<close>

definition isWhitespace :: "code_unit \<Rightarrow> bool" where
  "isWhitespace c =
     ((9 \<le> c \<and> c \<le> 13) \<or> c = 32 \<or> c = 160 \<or> c = 5760 \<or> (8192 \<le> c \<and> c \<le> 8202)
      \<or> c = 8232 \<or> c = 8233 \<or> c = 8239 \<or> c = 8287 \<or> c = 12288 \<or> c = 65279)"

text \<open>\<open>expression.replace(/\s+/g, '')\<close>\<close>

definition removeWhitespace :: "jsstring \<Rightarrow> jsstring" where
  "removeWhitespace s = filter (\<lambda>c. \<not> isWhitespace c) s"

text \<open>The class \<open>\w\<close>: ASCII letters, digits and the underscore.\<close>

definition isWordChar :: "code_unit \<Rightarrow> bool" where
  "isWordChar c =
     ((48 \<le> c \<and> c \<le> 57) \<or> (65 \<le> c \<and> c \<le> 90) \<or> (97 \<le> c \<and> c \<le> 122) \<or> c = 95)"

text \<open>The character class \<open>[0-9+\-*/().Math\w,[\]]\<close>.\<close>

definition isAllowedChar :: "code_unit \<Rightarrow> bool" where
  "isAllowedChar c =
     ((48 \<le> c \<and> c \<le> 57) \<or> c = of_char CHR ''+'' \<or> c = of_char CHR ''-''
      \<or> c = of_char CHR ''*'' \<or> c = of_char CHR ''/'' \<or> c = of_char CHR ''(''
      \<or> c = of_char CHR '')'' \<or> c = of_char CHR ''.'' \<or> c = of_char CHR ''M''
      \<or> c = of_char CHR ''a'' \<or> c = of_char CHR ''t'' \<or> c = of_char CHR ''h''
      \<or> isWordChar c \<or> c = of_char CHR '','' \<or> c = of_char CHR ''[''
      \<or> c = of_char CHR '']'')"

text \<open>\<open>/^[0-9+\-*/().Math\w,[\]]+$/.test(sanitized)\<close>: one or more characters, all of the class.\<close>

definition testAllowed :: "jsstring \<Rightarrow> bool" where
  "testAllowed s = (s \<noteq> [] \<and> list_all isAllowedChar s)"

text \<open>\<open>(sanitized.match(/\(/g) || []).length\<close> and the same for the closing parenthesis.\<close>

definition openCount :: "jsstring \<Rightarrow> nat" where
  "openCount s = length (filter (\<lambda>c. c = of_char CHR ''('') s)"

definition closeCount :: "jsstring \<Rightarrow> nat" where
  "closeCount s = length (filter (\<lambda>c. c = of_char CHR '')'') s)"

section \<open>Evaluation\<close>

text \<open>
  \<open>new Function('Math', `return ${sanitized}`)(mathContext)\<close> hands the text to the
  JavaScript engine. The engine is not part of the repository: it is a parameter
  \<open>engine\<close>, a function from the text of the body to what running it does. It returns a
  value, a number or a value of another type, or it throws, an \<open>Error\<close> object with its
  message or a value that is not an \<open>Error\<close>. That the engine is a function of the text
  says that evaluating the same text twice does the same.
\<close>

datatype jsvalue = NumberV number | OtherV

datatype thrown = ErrorObj jsstring | NonError

datatype outcome = Returned jsvalue | Thrown thrown

text \<open>\<open>String.prototype.includes\<close>: the argument occurs as a contiguous part.\<close>

fun startsWith :: "jsstring \<Rightarrow> jsstring \<Rightarrow> bool" where
  "startsWith s [] = True"
| "startsWith [] (p # ps) = False"
| "startsWith (c # cs) (p # ps) = (c = p \<and> startsWith cs ps)"

fun stringIncludes :: "jsstring \<Rightarrow> jsstring \<Rightarrow> bool" where
  "stringIncludes [] p = (p = [])"
| "stringIncludes (c # cs) p = (startsWith (c # cs) p \<or> stringIncludes cs p)"

text \<open>The \<open>catch\<close> block of \<open>safeEvaluate\<close>: the kind of the error it throws in turn.\<close>

fun catchBlock :: "thrown \<Rightarrow> CalculationError" where
  "catchBlock (ErrorObj msg) =
     (if stringIncludes msg (js ''Domain'') then DOMAIN
      else if stringIncludes msg (js ''Undefined'') then UNDEFINED
      else if stringIncludes msg (js ''Overflow'') then OVERFLOW
      else if stringIncludes msg (js ''Invalid'') then INVALID
      else SYNTAX)"
| "catchBlock NonError = UNKNOWN"

text \<open>
  The body of the \<open>try\<close> block after the engine has run: a result that is not a finite
  number throws \<open>Error(CalculationError.INVALID)\<close> inside the \<open>try\<close>, so that error passes
  through the \<open>catch\<close> block as well.
\<close>

fun tryBlock :: "outcome \<Rightarrow> CalculationError + number" where
  "tryBlock (Returned (NumberV n)) =
     (if isFinite n then Inr n else Inl (catchBlock (ErrorObj (message INVALID))))"
| "tryBlock (Returned OtherV) = Inl (catchBlock (ErrorObj (message INVALID)))"
| "tryBlock (Thrown err) = Inl (catchBlock err)"

text \<open>
  \<open>safeEvaluate\<close>, with the module-level cache passed in and returned. The result is
  \<open>Inr\<close> the number returned or \<open>Inl\<close> the kind of the error thrown.
\<close>

definition safeEvaluate ::
  "(jsstring \<Rightarrow> outcome) \<Rightarrow> cache \<Rightarrow> jsstring \<Rightarrow> (CalculationError + number) \<times> cache" where
  "safeEvaluate engine resultCache expression =
     (let resultCache1 = evictOldest resultCache
      in if mapHas resultCache1 expression
         then (Inr (the (mapGet resultCache1 expression)), resultCache1)
         else
           (let sanitized = removeWhitespace expression
            in if \<not> testAllowed sanitized then (Inl INVALID, resultCache1)
               else if openCount sanitized \<noteq> closeCount sanitized then (Inl SYNTAX, resultCache1)
               else (case tryBlock (engine sanitized) of
                       Inr result \<Rightarrow> (Inr result, mapSet resultCache1 expression result)
                     | Inl kind \<Rightarrow> (Inl kind, resultCache1))))"

text \<open>
  The cache is module-level state that only \<open>safeEvaluate\<close> touches: the states it can be
  in are the empty map and what a call leaves behind. \<open>evaluateAll\<close> is a run of calls,
  one per expression of a list, of which only the cache is kept.
\<close>

inductive reachable :: "(jsstring \<Rightarrow> outcome) \<Rightarrow> cache \<Rightarrow> bool" for engine where
  reachable_empty: "reachable engine []"
| reachable_call: "reachable engine c \<Longrightarrow> reachable engine (snd (safeEvaluate engine c e))"

text \<open>An engine that does the same on every text, to instantiate the parameter.\<close>

definition constEngine :: "outcome \<Rightarrow> jsstring \<Rightarrow> outcome" where
  "constEngine out s = out"

definition evaluateAll :: "(jsstring \<Rightarrow> outcome) \<Rightarrow> cache \<Rightarrow> jsstring list \<Rightarrow> cache" where
  "evaluateAll engine c es = foldl (\<lambda>c' e. snd (safeEvaluate engine c' e)) c es"

section \<open>The math context\<close>

text \<open>
  Comparisons of doubles are exact and false whenever NaN takes part; \<open>===\<close> on numbers
  is equality except that NaN equals nothing. \<open>Math.abs\<close> and unary minus are exact.
\<close>

fun numLess :: "number \<Rightarrow> number \<Rightarrow> bool" where
  "numLess (Num a) (Num b) = (a < b)"
| "numLess (Num a) PosInfinity = True"
| "numLess NegInfinity (Num b) = True"
| "numLess NegInfinity PosInfinity = True"
| "numLess _ _ = False"

definition numEq :: "number \<Rightarrow> number \<Rightarrow> bool" where
  "numEq a b = (a \<noteq> NaN \<and> a = b)"

definition numLessEq :: "number \<Rightarrow> number \<Rightarrow> bool" where
  "numLessEq a b = (numLess a b \<or> numEq a b)"

fun numAbs :: "number \<Rightarrow> number" where
  "numAbs (Num a) = Num \<bar>a\<bar>"
| "numAbs PosInfinity = PosInfinity"
| "numAbs NegInfinity = PosInfinity"
| "numAbs NaN = NaN"


text \<open>
  The operator \<open>%\<close>: the remainder of the division truncated towards zero, with the sign
  of the dividend. On doubles it is exact.
\<close>

definition truncToInt :: "real \<Rightarrow> int" where
  "truncToInt r = (if 0 \<le> r then \<lfloor>r\<rfloor> else \<lceil>r\<rceil>)"

fun numRem :: "number \<Rightarrow> number \<Rightarrow> number" where
  "numRem (Num a) (Num b) = (if b = 0 then NaN else Num (a - b * of_int (truncToInt (a / b))))"
| "numRem (Num a) PosInfinity = Num a"
| "numRem (Num a) NegInfinity = Num a"
| "numRem _ _ = NaN"

text \<open>
  The literals \<open>1e-10\<close> and \<open>1e9\<close> of the source are doubles: \<open>1e9\<close> is the integer, and
  \<open>1e-10\<close> is the double nearest to the tenth negative power of ten, which is
  \<open>7737125245533627 / 2^86\<close>.
\<close>

definition lit_1e_10 :: real where
  "lit_1e_10 = 7737125245533627 / 2 ^ 86"

definition lit_1e9 :: real where
  "lit_1e9 = 1000000000"

text \<open>
  What \<open>mathContext\<close> takes from the host: the four arithmetic operators, which round, and
  the functions and constants of the global \<open>Math\<close>. They are parameters.
\<close>

record hostMath =
  numAdd :: "number \<Rightarrow> number \<Rightarrow> number"
  numSub :: "number \<Rightarrow> number \<Rightarrow> number"
  numMul :: "number \<Rightarrow> number \<Rightarrow> number"
  numDiv :: "number \<Rightarrow> number \<Rightarrow> number"
  Math_sin :: "number \<Rightarrow> number"
  Math_cos :: "number \<Rightarrow> number"
  Math_tan :: "number \<Rightarrow> number"
  Math_asin :: "number \<Rightarrow> number"
  Math_acos :: "number \<Rightarrow> number"
  Math_atan :: "number \<Rightarrow> number"
  Math_log10 :: "number \<Rightarrow> number"
  Math_log :: "number \<Rightarrow> number"
  Math_sqrt :: "number \<Rightarrow> number"
  Math_pow :: "number \<Rightarrow> number \<Rightarrow> number"
  Math_PI :: number
  Math_E :: number

text \<open>\<open>const normalized = ((x % 360) + 360) % 360\<close>\<close>

definition normalized :: "hostMath \<Rightarrow> number \<Rightarrow> number" where
  "normalized h x = numRem (numAdd h (numRem x (Num 360)) (Num 360)) (Num 360)"

text \<open>
  The functions of \<open>mathContext\<close>. \<open>Inl kind\<close> stands for \<open>throw new Error(kind)\<close>, \<open>Inr\<close>
  for the number returned.
\<close>

definition mathContext_sin :: "hostMath \<Rightarrow> number \<Rightarrow> CalculationError + number" where
  "mathContext_sin h x =
     Inr (Math_sin h (numDiv h (numMul h (normalized h x) (Math_PI h)) (Num 180)))"

definition mathContext_cos :: "hostMath \<Rightarrow> number \<Rightarrow> CalculationError + number" where
  "mathContext_cos h x =
     (let n = normalized h x
      in if numEq n (Num 0) \<or> numEq n (Num 360) then Inr (Num 1)
         else if numEq n (Num 90) \<or> numEq n (Num 270) then Inr (Num 0)
         else if numEq n (Num 180) then Inr (Num (- 1))
         else if numEq n (Num 60) \<or> numEq n (Num 300) then Inr (Num (1 / 2))
         else if numEq n (Num 120) \<or> numEq n (Num 240) then Inr (Num (- (1 / 2)))
         else Inr (Math_cos h (numDiv h (numMul h n (Math_PI h)) (Num 180))))"


definition mathContext_asin :: "hostMath \<Rightarrow> number \<Rightarrow> CalculationError + number" where
  "mathContext_asin h x =
     (if numLess (Num 1) (numAbs x) then Inl DOMAIN
      else Inr (numDiv h (numMul h (Math_asin h x) (Num 180)) (Math_PI h)))"

definition mathContext_acos :: "hostMath \<Rightarrow> number \<Rightarrow> CalculationError + number" where
  "mathContext_acos h x =
     (if numLess (Num 1) (numAbs x) then Inl DOMAIN
      else Inr (numDiv h (numMul h (Math_acos h x) (Num 180)) (Math_PI h)))"

definition mathContext_atan :: "hostMath \<Rightarrow> number \<Rightarrow> CalculationError + number" where
  "mathContext_atan h x = Inr (numDiv h (numMul h (Math_atan h x) (Num 180)) (Math_PI h))"

definition mathContext_log :: "hostMath \<Rightarrow> number \<Rightarrow> CalculationError + number" where
  "mathContext_log h x = (if numLessEq x (Num 0) then Inl DOMAIN else Inr (Math_log10 h x))"

definition mathContext_ln :: "hostMath \<Rightarrow> number \<Rightarrow> CalculationError + number" where
  "mathContext_ln h x = (if numLessEq x (Num 0) then Inl DOMAIN else Inr (Math_log h x))"

definition mathContext_sqrt :: "hostMath \<Rightarrow> number \<Rightarrow> CalculationError + number" where
  "mathContext_sqrt h x = (if numLess x (Num 0) then Inl DOMAIN else Inr (Math_sqrt h x))"

definition mathContext_pow :: "hostMath \<Rightarrow> number \<Rightarrow> number \<Rightarrow> CalculationError + number" where
  "mathContext_pow h base exponent =
     (let result = Math_pow h base exponent
      in if \<not> isFinite result then Inl OVERFLOW else Inr result)"

text \<open>
  What the engine does with a body whose value is a call of one of these functions: the
  error thrown is an \<open>Error\<close> whose message is the string of the kind.
\<close>

fun callOutcome :: "CalculationError + number \<Rightarrow> outcome" where
  "callOutcome (Inl kind) = Thrown (ErrorObj (message kind))"
| "callOutcome (Inr v) = Returned (NumberV v)"

text \<open>
  An instance of \<open>hostMath\<close> to instantiate theorems with: arithmetic on the reals without
  rounding, and NaN as soon as an operand is not finite. It agrees with doubles wherever
  the exact result is a double.
\<close>

fun lift1 :: "(real \<Rightarrow> real) \<Rightarrow> number \<Rightarrow> number" where
  "lift1 f (Num a) = Num (f a)"
| "lift1 f _ = NaN"

fun lift2 :: "(real \<Rightarrow> real \<Rightarrow> real) \<Rightarrow> number \<Rightarrow> number \<Rightarrow> number" where
  "lift2 f (Num a) (Num b) = Num (f a b)"
| "lift2 f _ _ = NaN"

definition exactMath :: hostMath where
  "exactMath =
     \<lparr> numAdd = lift2 (+), numSub = lift2 (-), numMul = lift2 (*), numDiv = lift2 (/),
       Math_sin = lift1 sin, Math_cos = lift1 cos, Math_tan = lift1 tan,
       Math_asin = lift1 arcsin, Math_acos = lift1 arccos, Math_atan = lift1 arctan,
       Math_log10 = lift1 (log 10), Math_log = lift1 ln, Math_sqrt = lift1 sqrt,
       Math_pow = lift2 (powr), Math_PI = Num pi, Math_E = Num (exp 1) \<rparr>"

section \<open>Formatting\<close>

text \<open>
  The methods of \<open>Number\<close> that render a double as text, and \<open>Number(string)\<close> that reads
  one, belong to the host: they are parameters. The second argument of \<open>toLocaleString\<close>
  is the option \<open>maximumFractionDigits\<close>; the locale is the default one.
\<close>

record hostFormat =
  toExponential :: "number \<Rightarrow> nat \<Rightarrow> jsstring"
  toLocaleString :: "number \<Rightarrow> nat \<Rightarrow> jsstring"
  toPrecision :: "number \<Rightarrow> nat \<Rightarrow> jsstring"
  toNumber :: "jsstring \<Rightarrow> number"
  toString :: "number \<Rightarrow> jsstring"

text \<open>\<open>Number.isInteger\<close>\<close>

fun isInteger :: "number \<Rightarrow> bool" where
  "isInteger (Num a) = (of_int \<lfloor>a\<rfloor> = a)"
| "isInteger _ = False"

text \<open>
  \<open>.replace(/\.?0+$/, '')\<close>: the first match is removed. The pattern matches a run of zeros
  that ends the string, with the full stop before it if there is one, and the leftmost
  match takes the whole run of zeros at the end. A string that does not end in a zero is
  left as it is.
\<close>

definition replaceTrailingZeros :: "jsstring \<Rightarrow> jsstring" where
  "replaceTrailingZeros s =
     (let zeros = takeWhile (\<lambda>c. c = of_char CHR ''0'') (rev s);
          before = dropWhile (\<lambda>c. c = of_char CHR ''0'') (rev s)
      in if zeros = [] then s
         else (case before of
                 [] \<Rightarrow> []
               | c # cs \<Rightarrow> if c = of_char CHR ''.'' then rev cs else rev before))"

definition formatNumber :: "hostFormat \<Rightarrow> number \<Rightarrow> jsstring" where
  "formatNumber f num =
     (if numLess (numAbs num) (Num lit_1e_10) \<and> \<not> numEq num (Num 0) then toExponential f num 4
      else if numLess (Num lit_1e9) (numAbs num) then toExponential f num 4
      else if isInteger num then toLocaleString f num 0
      else replaceTrailingZeros (toString f (toNumber f (toPrecision f num 12))))"

section \<open>The cache as a list of entries\<close>

lemma map_of_mapSet: "map_of (mapSet m k v) = (map_of m)(k \<mapsto> v)"
  by (induction m k v rule: mapSet.induct) auto

lemma mapSet_fresh: "map_of m k = None \<Longrightarrow> mapSet m k v = m @ [(k, v)]"
  by (induction m k v rule: mapSet.induct) (auto split: if_splits)

lemma deleteFirstKey_distinct: "distinct (map fst m) \<Longrightarrow> deleteFirstKey m = tl m"
  by (cases m) (auto simp: mapDelete_def filter_id_conv image_iff)

lemma evictOldest_empty: "evictOldest [] = []"
  by (simp add: evictOldest_def mapSize_def)

lemma evictOldest_small: "length c \<le> 100 \<Longrightarrow> evictOldest c = c"
  by (simp add: evictOldest_def mapSize_def)

lemma set_evictOldest: "set (evictOldest c) \<subseteq> set c"
  by (cases c) (auto simp: evictOldest_def mapDelete_def)

lemma distinct_evictOldest: "distinct (map fst c) \<Longrightarrow> distinct (map fst (evictOldest c))"
  by (cases c) (auto simp: evictOldest_def mapDelete_def distinct_map_filter)

lemma length_evictOldest:
  "distinct (map fst c) \<Longrightarrow> length c \<le> 101 \<Longrightarrow> length (evictOldest c) \<le> 100"
  by (auto simp: evictOldest_def mapSize_def deleteFirstKey_distinct)

lemma map_of_evictOldest_None: "map_of c e = None \<Longrightarrow> map_of (evictOldest c) e = None"
  using set_evictOldest [of c] by (auto simp: map_of_eq_None_iff)

section \<open>What one call does\<close>

text \<open>
  On the empty cache a call is a miss, so \<open>fst (safeEvaluate engine [] e)\<close> is what
  validation and evaluation of \<open>e\<close> give by themselves.
\<close>

lemma safeEvaluate_fresh:
  "fst (safeEvaluate engine [] e) =
     (let sanitized = removeWhitespace e
      in if \<not> testAllowed sanitized then Inl INVALID
         else if openCount sanitized \<noteq> closeCount sanitized then Inl SYNTAX
         else tryBlock (engine sanitized))"
  by (simp add: safeEvaluate_def evictOldest_empty mapHas_def Let_def split: sum.splits)

lemma safeEvaluate_hit:
  "map_of (evictOldest c) e = Some v \<Longrightarrow> safeEvaluate engine c e = (Inr v, evictOldest c)"
  by (simp add: safeEvaluate_def mapHas_def mapGet_def)

lemma safeEvaluate_miss:
  assumes "map_of (evictOldest c) e = None"
  shows "safeEvaluate engine c e =
     (case fst (safeEvaluate engine [] e) of
        Inr result \<Rightarrow> (Inr result, evictOldest c @ [(e, result)])
      | Inl kind \<Rightarrow> (Inl kind, evictOldest c))"
  using assms
  by (simp add: safeEvaluate_fresh)
     (simp add: safeEvaluate_def mapHas_def Let_def mapSet_fresh split: sum.splits)

lemma tryBlock_finite: "tryBlock out = Inr v \<Longrightarrow> isFinite v"
  by (cases out rule: tryBlock.cases) (auto split: if_splits)

lemma fresh_result_finite: "fst (safeEvaluate engine [] e) = Inr v \<Longrightarrow> isFinite v"
  by (auto simp: safeEvaluate_fresh Let_def tryBlock_finite split: if_splits)

section \<open>Reachable caches\<close>

lemma reachable_inv:
  "reachable engine c \<Longrightarrow>
     distinct (map fst c) \<and> length c \<le> 101 \<and>
     (\<forall>k v. (k, v) \<in> set c \<longrightarrow> fst (safeEvaluate engine [] k) = Inr v)"
proof (induction rule: reachable.induct)
  case reachable_empty
  show ?case by simp
next
  case (reachable_call c e)
  let ?c1 = "evictOldest c"
  have d: "distinct (map fst ?c1)" and l: "length ?c1 \<le> 100"
    and s: "set ?c1 \<subseteq> set c"
    using reachable_call.IH by (simp_all add: distinct_evictOldest length_evictOldest set_evictOldest)
  show ?case
  proof (cases "map_of ?c1 e")
    case (Some v)
    then show ?thesis using d l s reachable_call.IH
      by (auto simp: safeEvaluate_hit)
  next
    case None
    then have notin: "e \<notin> fst ` set ?c1" by (simp add: map_of_eq_None_iff)
    show ?thesis
    proof (cases "fst (safeEvaluate engine [] e)")
      case (Inl k)
      then show ?thesis using None d l s reachable_call.IH
        by (auto simp: safeEvaluate_miss)
    next
      case (Inr r)
      then show ?thesis using None notin d l s reachable_call.IH
        by (auto simp: safeEvaluate_miss)
    qed
  qed
qed


text \<open>A result that is not a finite number leaves the \<open>catch\<close> block as INVALID.\<close>

lemma tryBlock_not_finite:
  "tryBlock (Returned OtherV) = Inl INVALID"
  "\<not> isFinite n \<Longrightarrow> tryBlock (Returned (NumberV n)) = Inl INVALID"
  by (simp_all add: js_def)

text \<open>A failure on the empty cache is the same failure on every reachable cache.\<close>

lemma reachable_miss:
  assumes "reachable engine c" and "fst (safeEvaluate engine [] e) = Inl kind"
  shows "safeEvaluate engine c e = (Inl kind, evictOldest c)"
proof -
  have "map_of (evictOldest c) e = None"
  proof (cases "map_of (evictOldest c) e")
    case (Some v)
    then have "(e, v) \<in> set c"
      using set_evictOldest [of c] by (auto dest: map_of_SomeD)
    with reachable_inv [OF assms(1)] assms(2) show ?thesis by auto
  qed simp
  then show ?thesis by (simp add: safeEvaluate_miss assms(2))
qed

text \<open>The definitions that a call on a concrete text unfolds.\<close>

lemmas eval_defs = safeEvaluate_def evictOldest_def js_def mapSize_def mapHas_def mapGet_def
  removeWhitespace_def isWhitespace_def testAllowed_def isAllowedChar_def isWordChar_def
  openCount_def closeCount_def

section \<open>Failures leave no cache entry\<close>

text \<open>
  Claim C10. If \<open>safeEvaluate\<close> fails on \<open>e\<close>, with whatever kind, the cache it leaves is
  the one it found, less the entry evicted at the head of the call: it has no entry for
  \<open>e\<close>, and the next call on \<open>e\<close> returns what validation and evaluation give afresh,
  whatever the engine does then. An entry that a call adds is the expression of the call
  with the finite number the call returned.
\<close>

theorem failed_evaluation_not_cached:
  "(fst (safeEvaluate engine c e) = Inl kind \<longrightarrow>
      snd (safeEvaluate engine c e) = evictOldest c \<and>
      \<not> mapHas (snd (safeEvaluate engine c e)) e \<and>
      (\<forall>engine'. fst (safeEvaluate engine' (snd (safeEvaluate engine c e)) e)
                  = fst (safeEvaluate engine' [] e))) \<and>
   (\<forall>k v. (k, v) \<in> set (snd (safeEvaluate engine c e)) \<longrightarrow>
      (k, v) \<in> set c \<or> (k = e \<and> isFinite v \<and> fst (safeEvaluate engine c e) = Inr v))"
proof (cases "map_of (evictOldest c) e")
  case (Some v)
  then show ?thesis
    using set_evictOldest [of c] by (auto simp: safeEvaluate_hit)
next
  case None
  note miss = safeEvaluate_miss [OF None]
  show ?thesis
  proof (cases "fst (safeEvaluate engine [] e)")
    case (Inl k)
    have again: "map_of (evictOldest (evictOldest c)) e = None"
      using None by (rule map_of_evictOldest_None)
    have "fst (safeEvaluate engine' (evictOldest c) e) = fst (safeEvaluate engine' [] e)" for engine'
      by (simp add: safeEvaluate_miss [OF again] split: sum.splits)
    with Inl None show ?thesis
      using set_evictOldest [of c] by (auto simp: miss mapHas_def)
  next
    case (Inr r)
    with None show ?thesis
      using set_evictOldest [of c] fresh_result_finite [OF Inr] by (auto simp: miss)
  qed
qed

theorem failed_evaluation_not_cached_witness:
  "fst (safeEvaluate (\<lambda>s. Returned (NumberV PosInfinity)) [] (js ''10/0'')) = Inl INVALID \<and>
   snd (safeEvaluate (\<lambda>s. Returned (NumberV PosInfinity)) [] (js ''10/0'')) = [] \<and>
   \<not> mapHas (snd (safeEvaluate (\<lambda>s. Returned (NumberV PosInfinity)) [] (js ''10/0''))) (js ''10/0'')"
proof -
  have h: "fst (safeEvaluate (\<lambda>s. Returned (NumberV PosInfinity)) [] (js ''10/0'')) = Inl INVALID"
    by (simp add: eval_defs)
  show ?thesis
    using h failed_evaluation_not_cached
      [of "\<lambda>s. Returned (NumberV PosInfinity)" "[]" "js ''10/0''" INVALID]
    by (simp add: evictOldest_empty mapHas_def)
qed

text \<open>A full cache loses its oldest entry.\<close>

lemma evictOldest_big: "100 < length c \<Longrightarrow> distinct (map fst c) \<Longrightarrow> evictOldest c = tl c"
  by (simp add: evictOldest_def mapSize_def deleteFirstKey_distinct)

section \<open>Unbalanced parentheses\<close>

text \<open>
  Claim C6. On a cache the program can reach, an expression whose text without whitespace
  passes the character check and has different numbers of opening and closing parentheses
  fails with SYNTAX, and with no other kind; nothing is stored. The witness is
  \<open>safeEvaluate("(1+2")\<close>.
\<close>

theorem unbalanced_parentheses_syntax:
  assumes "reachable engine c"
    and "testAllowed (removeWhitespace e)"
    and "openCount (removeWhitespace e) \<noteq> closeCount (removeWhitespace e)"
  shows "safeEvaluate engine c e = (Inl SYNTAX, evictOldest c)"
proof -
  have "fst (safeEvaluate engine [] e) = Inl SYNTAX"
    using assms(2,3) by (simp add: safeEvaluate_fresh)
  with assms(1) show ?thesis by (rule reachable_miss)
qed

theorem unbalanced_parentheses_syntax_witness:
  "reachable (\<lambda>s. Thrown (ErrorObj (js ''Unexpected token''))) [] \<and>
   testAllowed (removeWhitespace (js ''(1+2'')) \<and>
   openCount (removeWhitespace (js ''(1+2'')) \<noteq> closeCount (removeWhitespace (js ''(1+2'')) \<and>
   safeEvaluate (\<lambda>s. Thrown (ErrorObj (js ''Unexpected token''))) [] (js ''(1+2'')
     = (Inl SYNTAX, [])"
proof -
  have r: "reachable (\<lambda>s. Thrown (ErrorObj (js ''Unexpected token''))) []"
    by (rule reachable_empty)
  have t: "testAllowed (removeWhitespace (js ''(1+2''))"
    by (simp add: eval_defs)
  have p: "openCount (removeWhitespace (js ''(1+2'')) \<noteq> closeCount (removeWhitespace (js ''(1+2''))"
    by (simp add: eval_defs)
  show ?thesis
    using r t p unbalanced_parentheses_syntax [OF r t p] by (simp add: evictOldest_empty)
qed

section \<open>Evaluating twice\<close>




section \<open>The size of the cache\<close>

lemma evaluateAll_snoc:
  "evaluateAll engine c (es @ [e]) = snd (safeEvaluate engine (evaluateAll engine c es) e)"
  by (simp add: evaluateAll_def)

lemma evaluateAll_fill:
  "distinct es \<Longrightarrow> length es \<le> 101 \<Longrightarrow>
   \<forall>e\<in>set es. \<exists>v. fst (safeEvaluate engine [] e) = Inr v \<Longrightarrow>
   map fst (evaluateAll engine [] es) = es"
proof (induction es rule: rev_induct)
  case Nil
  show ?case by (simp add: evaluateAll_def)
next
  case (snoc e es)
  let ?c = "evaluateAll engine [] es"
  have keys: "map fst ?c = es" using snoc by simp
  then have "length ?c = length es" by (metis length_map)
  then have "length ?c \<le> 100" using snoc.prems by simp
  then have same: "evictOldest ?c = ?c" by (rule evictOldest_small)
  have "e \<notin> set es" using snoc.prems(1) by simp
  then have "e \<notin> fst ` set ?c" using keys by (metis list.set_map)
  then have miss: "map_of (evictOldest ?c) e = None"
    by (simp add: same map_of_eq_None_iff)
  obtain v where "fst (safeEvaluate engine [] e) = Inr v" using snoc.prems(3) by auto
  then have "safeEvaluate engine ?c e = (Inr v, ?c @ [(e, v)])"
    by (simp add: safeEvaluate_miss [OF miss] same)
  then show ?case by (simp add: evaluateAll_snoc keys)
qed

text \<open>
  Claim C1. The eviction test \<open>resultCache.size > 100\<close> runs at the head of a call, before
  the call stores its own result. Starting from the empty cache, 101 distinct expressions
  that all evaluate to a finite number leave 101 entries, and the key inserted first is
  still there with the key inserted last: the cache does hold more than 100 entries, and
  the oldest entry goes only at the head of the next call.
\<close>

theorem cache_holds_101_entries:
  assumes "distinct es" and "length es = 101"
    and "\<forall>e\<in>set es. \<exists>v. fst (safeEvaluate engine [] e) = Inr v"
  shows "mapSize (evaluateAll engine [] es) = 101 \<and>
         mapHas (evaluateAll engine [] es) (hd es) \<and>
         mapHas (evaluateAll engine [] es) (last es)"
proof -
  have keys: "map fst (evaluateAll engine [] es) = es"
    using assms by (simp add: evaluateAll_fill)
  then have "length (evaluateAll engine [] es) = 101"
    using assms(2) by (metis length_map)
  moreover have "es \<noteq> []" using assms(2) by auto
  then have "hd es \<in> set es" "last es \<in> set es" by simp_all
  then have "hd es \<in> fst ` set (evaluateAll engine [] es)" "last es \<in> fst ` set (evaluateAll engine [] es)"
    using keys by (metis list.set_map)+
  ultimately show ?thesis
    by (simp add: mapSize_def mapHas_def map_of_eq_None_iff)
qed

text \<open>Texts made of the digit 1 and the plus sign, for the witness.\<close>

lemma plain_text_passes:
  assumes "s \<noteq> []" and "set s \<subseteq> {of_char CHR ''1'', of_char CHR ''+''}"
  shows "removeWhitespace s = s" and "testAllowed s" and "openCount s = 0" and "closeCount s = 0"
proof -
  have a: "\<forall>c\<in>set s. c = 49 \<or> c = 43" using assms(2) by auto
  then show "removeWhitespace s = s"
    by (auto simp: removeWhitespace_def filter_id_conv isWhitespace_def)
  from a show "testAllowed s" using assms(1)
    by (auto simp: testAllowed_def list_all_iff isAllowedChar_def)
  from a show "openCount s = 0" by (auto simp: openCount_def filter_empty_conv)
  from a show "closeCount s = 0" by (auto simp: closeCount_def filter_empty_conv)
qed

theorem cache_holds_101_entries_witness:
  "mapSize (evaluateAll (\<lambda>s. Returned (NumberV (Num (real (Suc (length s) div 2))))) []
      (map (\<lambda>n. js ''1'' @ concat (replicate n (js ''+1''))) [0..<101])) = 101 \<and>
   mapHas (evaluateAll (\<lambda>s. Returned (NumberV (Num (real (Suc (length s) div 2))))) []
      (map (\<lambda>n. js ''1'' @ concat (replicate n (js ''+1''))) [0..<101])) (js ''1'')"
proof -
  let ?key = "\<lambda>n::nat. js ''1'' @ concat (replicate n (js ''+1''))"
  let ?es = "map ?key [0..<101]"
  let ?engine = "\<lambda>s. Returned (NumberV (Num (real (Suc (length s) div 2))))"
  have len: "length (?key n) = 2 * n + 1" for n
    by (simp add: js_def length_concat sum_list_replicate)
  have "inj ?key"
  proof (rule injI)
    fix m n assume "?key m = ?key n"
    then have "length (?key m) = length (?key n)" by simp
    then show "m = n" by (simp only: len)
  qed
  then have d: "distinct ?es"
    by (simp add: distinct_map inj_on_def inj_def)
  have l: "length ?es = 101" by simp
  have ok: "\<forall>e\<in>set ?es. \<exists>v. fst (safeEvaluate ?engine [] e) = Inr v"
  proof
    fix e assume "e \<in> set ?es"
    then obtain n where e: "e = ?key n" by auto
    have "e \<noteq> []" and "set e \<subseteq> {of_char CHR ''1'', of_char CHR ''+''}"
      by (auto simp: e js_def)
    then show "\<exists>v. fst (safeEvaluate ?engine [] e) = Inr v"
      by (simp add: safeEvaluate_fresh plain_text_passes)
  qed
  have h: "hd ?es = js ''1''"
    by (simp add: upt_conv_Cons)
  show ?thesis
    using cache_holds_101_entries [OF d l ok] by (simp only: h)
qed


text \<open>The entry inserted first goes at the head of the call after the 101st insertion.\<close>

lemma oldest_evicted_by_next_call:
  assumes "distinct (es @ [e])" and "length es = 101"
    and "\<forall>e'\<in>set (es @ [e]). \<exists>v. fst (safeEvaluate engine [] e') = Inr v"
  shows "map fst (evaluateAll engine [] (es @ [e])) = tl es @ [e]"
proof -
  let ?c = "evaluateAll engine [] es"
  have keys: "map fst ?c = es"
    using assms by (simp add: evaluateAll_fill)
  then have "length ?c = 101" using assms(2) by (metis length_map)
  moreover have "distinct (map fst ?c)" using keys assms(1) by simp
  ultimately have ev: "evictOldest ?c = tl ?c" by (simp add: evictOldest_big)
  have "e \<notin> set es" using assms(1) by simp
  then have "e \<notin> fst ` set ?c" using keys by (metis list.set_map)
  then have "e \<notin> fst ` set (evictOldest ?c)" using set_evictOldest [of ?c] by auto
  then have miss: "map_of (evictOldest ?c) e = None" by (simp add: map_of_eq_None_iff)
  obtain v where "fst (safeEvaluate engine [] e) = Inr v" using assms(3) by auto
  then have "safeEvaluate engine ?c e = (Inr v, tl ?c @ [(e, v)])"
    by (simp add: safeEvaluate_miss [OF miss] ev)
  then show ?thesis by (simp add: evaluateAll_snoc map_tl keys)
qed

section \<open>Failures with kind INVALID\<close>

text \<open>
  Claim C2, as stated, fails. The character class contains \<open>\w\<close>, so a letter sequence
  passes validation whether or not it names a function of the registry, and what becomes of
  it is the engine's doing: where the engine raises the reference error of an unknown name,
  the \<open>catch\<close> block makes it SYNTAX. Whitespace is outside the class too, but it is removed
  before the test, and the expression evaluates.
\<close>

theorem letters_pass_validation_counterexample:
  "fst (safeEvaluate (constEngine (Thrown (ErrorObj (js ''foo is not defined'')))) [] (js ''foo''))
     = Inl SYNTAX \<and>
   \<not> isAllowedChar (of_char CHR '' '') \<and>
   fst (safeEvaluate (constEngine (Returned (NumberV (Num 4)))) [] (js ''2 + 2'')) = Inr (Num 4)"
  by (simp add: eval_defs constEngine_def)

text \<open>
  Claim C2, amended. On a cache the program can reach, an expression whose text without
  whitespace is empty or has a character outside the class fails with INVALID; so does an
  expression that passes the character check and the balance check and whose evaluation
  returns a value that is not a number, or a number that is not finite. Nothing is stored
  in either case.
\<close>

theorem invalid_text_or_result:
  assumes "reachable engine c"
  shows "(\<not> testAllowed (removeWhitespace e) \<longrightarrow>
            safeEvaluate engine c e = (Inl INVALID, evictOldest c)) \<and>
         (testAllowed (removeWhitespace e) \<and>
          openCount (removeWhitespace e) = closeCount (removeWhitespace e) \<and>
          (engine (removeWhitespace e) = Returned OtherV \<or>
           (\<exists>n. engine (removeWhitespace e) = Returned (NumberV n) \<and> \<not> isFinite n)) \<longrightarrow>
            safeEvaluate engine c e = (Inl INVALID, evictOldest c))"
proof (intro conjI impI)
  assume "\<not> testAllowed (removeWhitespace e)"
  then have "fst (safeEvaluate engine [] e) = Inl INVALID"
    by (simp add: safeEvaluate_fresh)
  with assms show "safeEvaluate engine c e = (Inl INVALID, evictOldest c)"
    by (rule reachable_miss)
next
  assume a: "testAllowed (removeWhitespace e) \<and>
          openCount (removeWhitespace e) = closeCount (removeWhitespace e) \<and>
          (engine (removeWhitespace e) = Returned OtherV \<or>
           (\<exists>n. engine (removeWhitespace e) = Returned (NumberV n) \<and> \<not> isFinite n))"
  then have "tryBlock (engine (removeWhitespace e)) = Inl INVALID"
    by (auto simp: tryBlock_not_finite simp del: tryBlock.simps)
  with a have "fst (safeEvaluate engine [] e) = Inl INVALID"
    by (simp add: safeEvaluate_fresh)
  with assms show "safeEvaluate engine c e = (Inl INVALID, evictOldest c)"
    by (rule reachable_miss)
qed

theorem invalid_text_or_result_witness:
  "reachable (constEngine (Returned (NumberV PosInfinity))) [] \<and>
   \<not> testAllowed (removeWhitespace (js ''1;2'')) \<and>
   safeEvaluate (constEngine (Returned (NumberV PosInfinity))) [] (js ''1;2'') = (Inl INVALID, []) \<and>
   testAllowed (removeWhitespace (js ''10/0'')) \<and>
   openCount (removeWhitespace (js ''10/0'')) = closeCount (removeWhitespace (js ''10/0'')) \<and>
   constEngine (Returned (NumberV PosInfinity)) (removeWhitespace (js ''10/0''))
     = Returned (NumberV PosInfinity) \<and>
   \<not> isFinite PosInfinity \<and>
   safeEvaluate (constEngine (Returned (NumberV PosInfinity))) [] (js ''10/0'') = (Inl INVALID, [])"
proof -
  let ?engine = "constEngine (Returned (NumberV PosInfinity))"
  have r: "reachable ?engine []" by (rule reachable_empty)
  have a: "\<not> testAllowed (removeWhitespace (js ''1;2''))"
    by (simp add: eval_defs)
  have b: "testAllowed (removeWhitespace (js ''10/0''))"
    "openCount (removeWhitespace (js ''10/0'')) = closeCount (removeWhitespace (js ''10/0''))"
    by (simp_all add: eval_defs)
  have e: "?engine (removeWhitespace (js ''10/0'')) = Returned (NumberV PosInfinity)"
    by (simp add: constEngine_def)
  show ?thesis
    using r a b e invalid_text_or_result [OF r, of "js ''1;2''"]
      invalid_text_or_result [OF r, of "js ''10/0''"]
    by (simp add: evictOldest_empty)
qed

section \<open>The kinds of failure\<close>

text \<open>
  Claim C3, as stated, fails. An \<open>Error\<close> whose message contains none of the four words
  that the \<open>catch\<close> block looks for is rethrown as SYNTAX, not as UNKNOWN, although the
  parentheses of the expression balance.
\<close>

theorem unmatched_error_counterexample:
  "\<not> stringIncludes (js ''Math.foo is not a function'') (js ''Domain'') \<and>
   \<not> stringIncludes (js ''Math.foo is not a function'') (js ''Undefined'') \<and>
   \<not> stringIncludes (js ''Math.foo is not a function'') (js ''Overflow'') \<and>
   \<not> stringIncludes (js ''Math.foo is not a function'') (js ''Invalid'') \<and>
   openCount (js ''Math.foo()'') = closeCount (js ''Math.foo()'') \<and>
   fst (safeEvaluate (constEngine (Thrown (ErrorObj (js ''Math.foo is not a function'')))) []
          (js ''Math.foo()'')) = Inl SYNTAX"
  by (simp add: eval_defs constEngine_def)

text \<open>
  Claim C3, amended. The \<open>catch\<close> block gives every failure one kind. An \<open>Error\<close> is
  DOMAIN, UNDEFINED, OVERFLOW or INVALID by the first of the words Domain, Undefined,
  Overflow, Invalid that its message contains, and SYNTAX when it contains none. UNKNOWN
  is the kind of a thrown value that is not an \<open>Error\<close>, and of nothing else: a call that
  fails with UNKNOWN had the engine throw such a value.
\<close>

theorem failure_reclassification:
  "(catchBlock t = UNKNOWN \<longleftrightarrow> t = NonError) \<and>
   (\<forall>msg. t = ErrorObj msg \<longrightarrow>
      (catchBlock t = DOMAIN \<longleftrightarrow> stringIncludes msg (js ''Domain'')) \<and>
      (catchBlock t = UNDEFINED \<longleftrightarrow>
         \<not> stringIncludes msg (js ''Domain'') \<and> stringIncludes msg (js ''Undefined'')) \<and>
      (catchBlock t = OVERFLOW \<longleftrightarrow>
         \<not> stringIncludes msg (js ''Domain'') \<and> \<not> stringIncludes msg (js ''Undefined'') \<and>
         stringIncludes msg (js ''Overflow'')) \<and>
      (catchBlock t = INVALID \<longleftrightarrow>
         \<not> stringIncludes msg (js ''Domain'') \<and> \<not> stringIncludes msg (js ''Undefined'') \<and>
         \<not> stringIncludes msg (js ''Overflow'') \<and> stringIncludes msg (js ''Invalid'')) \<and>
      (catchBlock t = SYNTAX \<longleftrightarrow>
         \<not> stringIncludes msg (js ''Domain'') \<and> \<not> stringIncludes msg (js ''Undefined'') \<and>
         \<not> stringIncludes msg (js ''Overflow'') \<and> \<not> stringIncludes msg (js ''Invalid''))) \<and>
   (fst (safeEvaluate engine c e) = Inl UNKNOWN \<longrightarrow>
      engine (removeWhitespace e) = Thrown NonError)"
proof (intro conjI)
  show "catchBlock t = UNKNOWN \<longleftrightarrow> t = NonError"
    by (cases t) auto
  show "\<forall>msg. t = ErrorObj msg \<longrightarrow>
      (catchBlock t = DOMAIN \<longleftrightarrow> stringIncludes msg (js ''Domain'')) \<and>
      (catchBlock t = UNDEFINED \<longleftrightarrow>
         \<not> stringIncludes msg (js ''Domain'') \<and> stringIncludes msg (js ''Undefined'')) \<and>
      (catchBlock t = OVERFLOW \<longleftrightarrow>
         \<not> stringIncludes msg (js ''Domain'') \<and> \<not> stringIncludes msg (js ''Undefined'') \<and>
         stringIncludes msg (js ''Overflow'')) \<and>
      (catchBlock t = INVALID \<longleftrightarrow>
         \<not> stringIncludes msg (js ''Domain'') \<and> \<not> stringIncludes msg (js ''Undefined'') \<and>
         \<not> stringIncludes msg (js ''Overflow'') \<and> stringIncludes msg (js ''Invalid'')) \<and>
      (catchBlock t = SYNTAX \<longleftrightarrow>
         \<not> stringIncludes msg (js ''Domain'') \<and> \<not> stringIncludes msg (js ''Undefined'') \<and>
         \<not> stringIncludes msg (js ''Overflow'') \<and> \<not> stringIncludes msg (js ''Invalid''))"
    by simp
  show "fst (safeEvaluate engine c e) = Inl UNKNOWN \<longrightarrow>
      engine (removeWhitespace e) = Thrown NonError"
  proof
    assume u: "fst (safeEvaluate engine c e) = Inl UNKNOWN"
    have miss: "map_of (evictOldest c) e = None"
    proof (cases "map_of (evictOldest c) e")
      case (Some v)
      with u show ?thesis by (simp add: safeEvaluate_hit)
    qed simp
    with u have "fst (safeEvaluate engine [] e) = Inl UNKNOWN"
      by (simp add: safeEvaluate_miss split: sum.splits)
    then have t: "tryBlock (engine (removeWhitespace e)) = Inl UNKNOWN"
      by (simp add: safeEvaluate_fresh Let_def split: if_splits)
    show "engine (removeWhitespace e) = Thrown NonError"
    proof (cases "engine (removeWhitespace e)" rule: tryBlock.cases)
      case (1 n)
      with t show ?thesis by (simp add: js_def split: if_splits)
    next
      case 2
      with t show ?thesis by (simp add: js_def)
    next
      case (3 err)
      with t show ?thesis by (cases err) (auto split: if_splits)
    qed
  qed
qed

theorem failure_reclassification_witness:
  "catchBlock (ErrorObj (js ''x is not defined'')) = SYNTAX \<and>
   catchBlock (ErrorObj (js ''x is not defined'')) \<noteq> UNKNOWN \<and>
   catchBlock (ErrorObj (message OVERFLOW)) = OVERFLOW \<and>
   fst (safeEvaluate (constEngine (Thrown NonError)) [] (js ''1'')) = Inl UNKNOWN \<and>
   constEngine (Thrown NonError) (removeWhitespace (js ''1'')) = Thrown NonError"
proof -
  have u: "fst (safeEvaluate (constEngine (Thrown NonError)) [] (js ''1'')) = Inl UNKNOWN"
    by (simp add: eval_defs constEngine_def)
  have n: "\<not> stringIncludes (js ''x is not defined'') (js ''Domain'')"
    "\<not> stringIncludes (js ''x is not defined'') (js ''Undefined'')"
    "\<not> stringIncludes (js ''x is not defined'') (js ''Overflow'')"
    "\<not> stringIncludes (js ''x is not defined'') (js ''Invalid'')"
    by (simp_all add: js_def)
  have o: "\<not> stringIncludes (message OVERFLOW) (js ''Domain'')"
    "\<not> stringIncludes (message OVERFLOW) (js ''Undefined'')"
    "stringIncludes (message OVERFLOW) (js ''Overflow'')"
    by (simp_all add: js_def)
  show ?thesis
    using u n o
      failure_reclassification [of "ErrorObj (js ''x is not defined'')" "constEngine (Thrown NonError)" "[]" "js ''1''"]
      failure_reclassification [of "ErrorObj (message OVERFLOW)" "constEngine (Thrown NonError)" "[]" "js ''1''"]
    by blast
qed


section \<open>Errors thrown by the math context\<close>

text \<open>
  An \<open>Error\<close> that carries the string of DOMAIN, UNDEFINED, OVERFLOW or INVALID leaves
  \<open>safeEvaluate\<close> with that kind.
\<close>

lemma thrown_kind_rethrown:
  assumes "reachable engine c"
    and "testAllowed (removeWhitespace e)"
    and "openCount (removeWhitespace e) = closeCount (removeWhitespace e)"
    and "engine (removeWhitespace e) = Thrown (ErrorObj (message kind))"
    and "kind = DOMAIN \<or> kind = UNDEFINED \<or> kind = OVERFLOW \<or> kind = INVALID"
  shows "safeEvaluate engine c e = (Inl kind, evictOldest c)"
proof -
  have "catchBlock (ErrorObj (message kind)) = kind"
    using assms(5) by (auto simp: js_def)
  then have "fst (safeEvaluate engine [] e) = Inl kind"
    using assms(2,3,4) by (simp add: safeEvaluate_fresh)
  with assms(1) show ?thesis by (rule reachable_miss)
qed






text \<open>
  Claim C8. On a finite argument, \<open>asin\<close> and \<open>acos\<close> throw DOMAIN when its absolute value
  exceeds 1 and otherwise return the host's value converted to degrees; \<open>log\<close> and \<open>ln\<close>
  throw DOMAIN when it is zero or negative and otherwise return the host's logarithm;
  \<open>sqrt\<close> throws DOMAIN when it is negative and otherwise returns the host's root. The
  error thrown leaves \<open>safeEvaluate\<close> with kind DOMAIN.
\<close>

theorem domain_errors:
  "(1 < \<bar>r\<bar> \<longrightarrow> mathContext_asin h (Num r) = Inl DOMAIN \<and> mathContext_acos h (Num r) = Inl DOMAIN) \<and>
   (\<bar>r\<bar> \<le> 1 \<longrightarrow>
      mathContext_asin h (Num r) = Inr (numDiv h (numMul h (Math_asin h (Num r)) (Num 180)) (Math_PI h)) \<and>
      mathContext_acos h (Num r) = Inr (numDiv h (numMul h (Math_acos h (Num r)) (Num 180)) (Math_PI h))) \<and>
   (r \<le> 0 \<longrightarrow> mathContext_log h (Num r) = Inl DOMAIN \<and> mathContext_ln h (Num r) = Inl DOMAIN) \<and>
   (0 < r \<longrightarrow>
      mathContext_log h (Num r) = Inr (Math_log10 h (Num r)) \<and>
      mathContext_ln h (Num r) = Inr (Math_log h (Num r))) \<and>
   (r < 0 \<longrightarrow> mathContext_sqrt h (Num r) = Inl DOMAIN) \<and>
   (0 \<le> r \<longrightarrow> mathContext_sqrt h (Num r) = Inr (Math_sqrt h (Num r))) \<and>
   (\<forall>engine c e.
      reachable engine c \<longrightarrow> testAllowed (removeWhitespace e) \<longrightarrow>
      openCount (removeWhitespace e) = closeCount (removeWhitespace e) \<longrightarrow>
      engine (removeWhitespace e) = callOutcome (Inl DOMAIN) \<longrightarrow>
      safeEvaluate engine c e = (Inl DOMAIN, evictOldest c))"
proof -
  have "mathContext_asin h (Num r) = Inl DOMAIN \<and> mathContext_acos h (Num r) = Inl DOMAIN"
    if "1 < \<bar>r\<bar>"
    using that by (simp add: mathContext_asin_def mathContext_acos_def)
  moreover have
    "mathContext_asin h (Num r) = Inr (numDiv h (numMul h (Math_asin h (Num r)) (Num 180)) (Math_PI h)) \<and>
     mathContext_acos h (Num r) = Inr (numDiv h (numMul h (Math_acos h (Num r)) (Num 180)) (Math_PI h))"
    if "\<bar>r\<bar> \<le> 1"
    using that by (simp add: mathContext_asin_def mathContext_acos_def)
  moreover have "mathContext_log h (Num r) = Inl DOMAIN \<and> mathContext_ln h (Num r) = Inl DOMAIN"
    if "r \<le> 0"
    using that by (auto simp: mathContext_log_def mathContext_ln_def numLessEq_def numEq_def)
  moreover have "mathContext_log h (Num r) = Inr (Math_log10 h (Num r)) \<and>
      mathContext_ln h (Num r) = Inr (Math_log h (Num r))"
    if "0 < r"
    using that by (auto simp: mathContext_log_def mathContext_ln_def numLessEq_def numEq_def)
  moreover have "mathContext_sqrt h (Num r) = Inl DOMAIN" if "r < 0"
    using that by (simp add: mathContext_sqrt_def)
  moreover have "mathContext_sqrt h (Num r) = Inr (Math_sqrt h (Num r))" if "0 \<le> r"
    using that by (simp add: mathContext_sqrt_def)
  moreover have "safeEvaluate engine c e = (Inl DOMAIN, evictOldest c)"
    if "reachable engine c" "testAllowed (removeWhitespace e)"
      "openCount (removeWhitespace e) = closeCount (removeWhitespace e)"
      "engine (removeWhitespace e) = callOutcome (Inl DOMAIN)" for engine c e
    using that by (auto intro: thrown_kind_rethrown)
  ultimately show ?thesis by blast
qed

theorem domain_errors_witness:
  "mathContext_asin exactMath (Num 2) = Inl DOMAIN \<and>
   mathContext_acos exactMath (Num 2) = Inl DOMAIN \<and>
   mathContext_sqrt exactMath (Num 2) = Inr (Math_sqrt exactMath (Num 2)) \<and>
   mathContext_log exactMath (Num 2) = Inr (Math_log10 exactMath (Num 2)) \<and>
   mathContext_log exactMath (Num 0) = Inl DOMAIN \<and>
   mathContext_ln exactMath (Num 0) = Inl DOMAIN \<and>
   mathContext_asin exactMath (Num 0)
     = Inr (numDiv exactMath (numMul exactMath (Math_asin exactMath (Num 0)) (Num 180)) (Math_PI exactMath)) \<and>
   mathContext_sqrt exactMath (Num (- 1)) = Inl DOMAIN \<and>
   safeEvaluate (constEngine (callOutcome (mathContext_sqrt exactMath (Num (- 1))))) []
     (js ''Math.sqrt(-1)'') = (Inl DOMAIN, [])"
proof -
  let ?engine = "constEngine (callOutcome (mathContext_sqrt exactMath (Num (- 1))))"
  have s: "mathContext_sqrt exactMath (Num (- 1)) = Inl DOMAIN"
    using domain_errors [of "- 1" exactMath] by simp
  have r: "reachable ?engine []" by (rule reachable_empty)
  have v: "testAllowed (removeWhitespace (js ''Math.sqrt(-1)''))"
    "openCount (removeWhitespace (js ''Math.sqrt(-1)'')) = closeCount (removeWhitespace (js ''Math.sqrt(-1)''))"
    by (simp_all add: eval_defs)
  have e: "?engine (removeWhitespace (js ''Math.sqrt(-1)'')) = callOutcome (Inl DOMAIN)"
    by (simp only: constEngine_def s)
  have last: "safeEvaluate ?engine [] (js ''Math.sqrt(-1)'') = (Inl DOMAIN, [])"
    using r v e domain_errors [of 0 exactMath] by (simp add: evictOldest_empty)
  show ?thesis
    using s last domain_errors [of 2 exactMath] domain_errors [of 0 exactMath] by simp
qed

section \<open>The rules of the formatter\<close>

text \<open>
  Claim C9. \<open>formatNumber\<close> tries its rules in order. A number that is not zero and whose
  absolute value is below \<open>1e-10\<close> is rendered by \<open>toExponential(4)\<close>; failing that, a
  number whose absolute value is above \<open>1e9\<close> is rendered the same way; failing both, an
  integer is rendered by \<open>toLocaleString\<close> with no fractional digit. The texts themselves
  are the host's.
\<close>

theorem formatNumber_rules_in_order:
  "(0 < \<bar>n\<bar> \<and> \<bar>n\<bar> < lit_1e_10 \<longrightarrow> formatNumber f (Num n) = toExponential f (Num n) 4) \<and>
   (\<not> (0 < \<bar>n\<bar> \<and> \<bar>n\<bar> < lit_1e_10) \<and> lit_1e9 < \<bar>n\<bar> \<longrightarrow>
      formatNumber f (Num n) = toExponential f (Num n) 4) \<and>
   (\<not> (0 < \<bar>n\<bar> \<and> \<bar>n\<bar> < lit_1e_10) \<and> \<not> lit_1e9 < \<bar>n\<bar> \<and> n \<in> \<int> \<longrightarrow>
      formatNumber f (Num n) = toLocaleString f (Num n) 0)"
proof -
  have z: "n \<in> \<int> \<Longrightarrow> isInteger (Num n)"
    by (auto simp: Ints_def)
  show ?thesis
    by (auto simp: formatNumber_def numEq_def z)
qed

theorem formatNumber_rules_in_order_witness:
  "formatNumber \<lparr> toExponential = (\<lambda>n d. js ''1.0000e-11''), toLocaleString = (\<lambda>n d. js ''1,000,000''),
       toPrecision = (\<lambda>n p. js ''''), toNumber = (\<lambda>s. NaN), toString = (\<lambda>n. js '''') \<rparr>
     (Num (1 / 10 ^ 11)) = js ''1.0000e-11'' \<and>
   formatNumber \<lparr> toExponential = (\<lambda>n d. js ''1.0000e-11''), toLocaleString = (\<lambda>n d. js ''1,000,000''),
       toPrecision = (\<lambda>n p. js ''''), toNumber = (\<lambda>s. NaN), toString = (\<lambda>n. js '''') \<rparr>
     (Num 1000000) = js ''1,000,000''"
proof -
  let ?f = "\<lparr> toExponential = (\<lambda>n d. js ''1.0000e-11''), toLocaleString = (\<lambda>n d. js ''1,000,000''),
       toPrecision = (\<lambda>n p. js ''''), toNumber = (\<lambda>s. NaN), toString = (\<lambda>n. js '''') \<rparr>"
  have a: "0 < \<bar>1 / 10 ^ 11 :: real\<bar> \<and> \<bar>1 / 10 ^ 11 :: real\<bar> < lit_1e_10"
    by (simp add: lit_1e_10_def)
  have b: "\<not> (0 < \<bar>1000000 :: real\<bar> \<and> \<bar>1000000 :: real\<bar> < lit_1e_10) \<and>
           \<not> lit_1e9 < \<bar>1000000 :: real\<bar> \<and> (1000000 :: real) \<in> \<int>"
    by (simp add: lit_1e_10_def lit_1e9_def)
  show ?thesis
    using a b formatNumber_rules_in_order [of "1 / 10 ^ 11" ?f]
      formatNumber_rules_in_order [of 1000000 ?f]
    by simp
qed

text \<open>The replacement on some texts: zeros of a fraction, of an integer part, of an exponent.\<close>

lemma replaceTrailingZeros_examples:
  "replaceTrailingZeros (js ''0.5'') = js ''0.5''"
  "replaceTrailingZeros (js ''1.500'') = js ''1.5''"
  "replaceTrailingZeros (js ''2.000'') = js ''2''"
  "replaceTrailingZeros (js ''1e-10'') = js ''1e-1''"
  by (simp_all add: replaceTrailingZeros_def js_def)

text \<open>
  Claim C4. The last rule removes what \<open>/\.?0+$/\<close> matches, and the pattern does not ask
  for a decimal point before the zeros. The text that \<open>toString\<close> gives has no zero at the
  end of a fraction, so the zeros removed are those that end an integer part. The double
  next above 100 is not an integer; \<open>toPrecision(12)\<close> renders it as \<open>100.000000000\<close>,
  \<open>Number\<close> reads 100, \<open>toString\<close> gives \<open>100\<close>, and \<open>formatNumber\<close> returns \<open>1\<close>.
\<close>

theorem formatNumber_strips_integer_zeros:
  assumes "\<not> n \<in> \<int>" and "lit_1e_10 \<le> \<bar>n\<bar>" and "\<bar>n\<bar> \<le> lit_1e9"
    and "toString f (toNumber f (toPrecision f (Num n) 12)) = js ''100''"
  shows "formatNumber f (Num n) = js ''1''"
proof -
  have "\<not> isInteger (Num n)"
    using assms(1) by (metis Ints_of_int isInteger.simps(1))
  then have "formatNumber f (Num n) = replaceTrailingZeros (js ''100'')"
    using assms(2,3,4) by (simp add: formatNumber_def)
  also have "\<dots> = js ''1''"
    by (simp add: replaceTrailingZeros_def js_def)
  finally show ?thesis .
qed

theorem formatNumber_strips_integer_zeros_witness:
  "formatNumber \<lparr> toExponential = (\<lambda>n d. js ''1.0000e+2''), toLocaleString = (\<lambda>n d. js ''100''),
       toPrecision = (\<lambda>n p. js ''100.000000000''), toNumber = (\<lambda>s. Num 100),
       toString = (\<lambda>n. js ''100'') \<rparr>
     (Num (100 + 1 / 2 ^ 46)) = js ''1''"
proof -
  let ?f = "\<lparr> toExponential = (\<lambda>n d. js ''1.0000e+2''), toLocaleString = (\<lambda>n d. js ''100''),
       toPrecision = (\<lambda>n p. js ''100.000000000''), toNumber = (\<lambda>s. Num 100),
       toString = (\<lambda>n. js ''100'') \<rparr>"
  have "(100 + 1 / 2 ^ 46 :: real) \<notin> \<int>"
  proof
    assume "(100 + 1 / 2 ^ 46 :: real) \<in> \<int>"
    then obtain k :: int where k: "100 + 1 / 2 ^ 46 = (of_int k :: real)" by (auto simp: Ints_def)
    then have "(100::real) < of_int k" "of_int k < (101::real)" by simp_all
    then have "100 < k" "k < 101" by linarith+
    then show False by simp
  qed
  moreover have "lit_1e_10 \<le> \<bar>100 + 1 / 2 ^ 46 :: real\<bar>" "\<bar>100 + 1 / 2 ^ 46 :: real\<bar> \<le> lit_1e9"
    by (simp_all add: lit_1e_10_def lit_1e9_def)
  moreover have "toString ?f (toNumber ?f (toPrecision ?f (Num (100 + 1 / 2 ^ 46)) 12)) = js ''100''"
    by simp
  ultimately show ?thesis
    by (rule formatNumber_strips_integer_zeros)
qed


end
